theory Spec2Isabelle
  imports Main
begin

section \<open>JavaScript values used by the program\<close>

text \<open>
  A JavaScript string is modelled as a \<^typ>\<open>string\<close>: one \<^typ>\<open>char\<close> per code
  unit, for code units below 256.  An exception is a value of \<open>error\<close>, carrying
  the class of the exception and its message.
\<close>

datatype error = Error string | TypeError string

text \<open>
  \<open>String.prototype.trim\<close> removes white space and line terminators from both
  ends.  Among the code units below 256 these are TAB, LF, VT, FF, CR, SPACE and
  NBSP.
\<close>

definition isWhiteSpace :: "char \<Rightarrow> bool" where
  "isWhiteSpace c =
     (c = CHR 0x09 \<or> c = CHR 0x0A \<or> c = CHR 0x0B \<or> c = CHR 0x0C \<or> c = CHR 0x0D
      \<or> c = CHR 0x20 \<or> c = CHR 0xA0)"

definition trim :: "string \<Rightarrow> string" where
  "trim s = rev (dropWhile isWhiteSpace (rev (dropWhile isWhiteSpace s)))"

section \<open>ChatModel (src/js/model.js)\<close>

text \<open>
  A message object as \<open>create\<close> builds it.  The fields \<open>id\<close> and \<open>text\<close> are
  written \<open>id_msg\<close> and \<open>text_msg\<close>; \<open>editedAt\<close> is absent until \<open>update\<close> sets it.
\<close>

record message =
  id_msg :: string
  text_msg :: string
  isUser :: bool
  timestamp :: nat
  edited :: bool
  editedAt :: "nat option"

text \<open>
  What \<open>localStorage.getItem(this.storageKey)\<close> holds: nothing (\<open>null\<close>), a string
  that \<open>JSON.parse\<close> rejects or that is not an array, or the JSON of an array of
  messages.
\<close>

datatype stored = Absent | Invalid | Messages "message list"

text \<open>
  The state a \<open>ChatModel\<close> works on: the item in \<open>localStorage\<close>, whether
  \<open>localStorage.setItem\<close> throws (storage full or disabled), and the arguments the
  observers were called with, oldest first.
\<close>

record chat_state =
  item :: stored
  setItemThrows :: bool
  notified :: "message list list"

text \<open>\<open>getAll\<close>: everything but a stored array reads as the empty array.\<close>

definition getAll :: "chat_state \<Rightarrow> message list" where
  "getAll st = (case item st of Absent \<Rightarrow> [] | Invalid \<Rightarrow> [] | Messages ms \<Rightarrow> ms)"

text \<open>
  \<open>_save\<close>: the exception of \<open>setItem\<close> is caught and replaced by
  \<open>Error('Failed to save data')\<close>; nothing has been written then.
\<close>

definition save :: "chat_state \<Rightarrow> message list \<Rightarrow> error + chat_state" where
  "save st messages =
     (if setItemThrows st then Inl (Error ''Failed to save data'')
      else Inr (st\<lparr>item := Messages messages\<rparr>))"

text \<open>
  \<open>_notifyObservers\<close>: every observer is called with \<open>getAll()\<close>; an exception of
  an observer is caught and logged, so the call itself never throws.
\<close>

definition notifyObservers :: "chat_state \<Rightarrow> chat_state" where
  "notifyObservers st = st\<lparr>notified := notified st @ [getAll st]\<rparr>"

text \<open>
  The guard of \<open>create\<close> and \<open>update\<close>:
  \<^verbatim>\<open>!text || text.trim().length === 0\<close>.  For a string, \<open>!text\<close> holds of the
  empty string only.
\<close>

definition emptyText :: "string \<Rightarrow> bool" where
  "emptyText t = (t = [] \<or> length (trim t) = 0)"

text \<open>
  \<open>create(text, isUser)\<close>.  \<open>crypto.randomUUID()\<close> and \<open>Date.now()\<close> are the
  arguments \<open>uuid\<close> and \<open>now\<close>.  The result is what the call returns or throws,
  and the state it leaves.
\<close>

definition create ::
  "string \<Rightarrow> bool \<Rightarrow> string \<Rightarrow> nat \<Rightarrow> chat_state \<Rightarrow> (error + message) \<times> chat_state" where
  "create t isUserArg uuid now st =
     (if emptyText t then (Inl (Error ''Message text cannot be empty''), st)
      else
        let messages = getAll st;
            newMessage = \<lparr>id_msg = uuid, text_msg = trim t, isUser = isUserArg,
                          timestamp = now, edited = False, editedAt = None\<rparr>;
            messages = messages @ [newMessage]
        in case save st messages of
             Inl e \<Rightarrow> (Inl e, st)
           | Inr st' \<Rightarrow> (Inr newMessage, notifyObservers st'))"

text \<open>
  \<open>messages.find(msg => msg.id === id)\<close> yields the first message with the id;
  \<open>update\<close> then assigns to the fields of that object, which is the element of the
  array.  \<open>updateFirst\<close> is the array after these assignments.
\<close>

fun updateFirst :: "(message \<Rightarrow> bool) \<Rightarrow> (message \<Rightarrow> message) \<Rightarrow> message list \<Rightarrow> message list" where
  "updateFirst p f [] = []"
| "updateFirst p f (m # ms) = (if p m then f m # ms else m # updateFirst p f ms)"

text \<open>
  \<open>update(id, newText)\<close>: \<open>Inr None\<close> is the return value \<open>null\<close>.
\<close>

definition update ::
  "string \<Rightarrow> string \<Rightarrow> nat \<Rightarrow> chat_state \<Rightarrow> (error + message option) \<times> chat_state" where
  "update ident newText now st =
     (if emptyText newText then (Inl (Error ''Message text cannot be empty''), st)
      else
        let messages = getAll st in
        case find (\<lambda>msg. id_msg msg = ident) messages of
          None \<Rightarrow> (Inr None, st)
        | Some msg \<Rightarrow>
            if \<not> isUser msg then (Inl (Error ''Cannot edit bot messages''), st)
            else
              let assign = (\<lambda>m. m\<lparr>text_msg := trim newText, edited := True,
                                     editedAt := Some now\<rparr>);
                  messages = updateFirst (\<lambda>msg. id_msg msg = ident) assign messages
              in (case save st messages of
                    Inl e \<Rightarrow> (Inl e, st)
                  | Inr st' \<Rightarrow> (Inr (Some (assign msg)), notifyObservers st')))"

section \<open>The AI services\<close>

text \<open>
  What becomes of the promise an \<open>async getResponse\<close> returns: it is resolved
  with a value, rejected with an exception, or never settled.
\<close>

datatype 'a promise = Resolved 'a | Rejected error | Pending

subsection \<open>ElizaService\<close>

text \<open>
  \<open>getBotResponse\<close> is imported from \<open>eliza.js\<close>, which is not among the sources;
  it is the argument \<open>getBotResponse\<close>, a function that returns a string or throws.
  The executor of the promise only starts a timer.  The callback of the timer calls
  \<open>getBotResponse\<close> and then \<open>resolve\<close>; an exception in the callback reaches
  no \<open>reject\<close>, and the promise stays pending.  The argument \<open>history\<close> is not read.

  The class \<open>ElizaService\<close> of \<open>src/unnamed/part_005\<close> (two copies, which differ
  in the path they import \<open>eliza.js\<close> from):
  \<^verbatim>\<open>const response = getBotResponse(message); resolve(response);\<close>
\<close>

definition ElizaService_getResponse ::
  "(string \<Rightarrow> error + string) \<Rightarrow> string \<Rightarrow> message list \<Rightarrow> string promise" where
  "ElizaService_getResponse getBotResponse msg history =
     (case getBotResponse msg of
        Inl e \<Rightarrow> Pending
      | Inr response \<Rightarrow> Resolved response)"

text \<open>
  The class \<open>ElizaService\<close> of \<open>src/unnamed/part_001\<close>, whose doc comment
  reads \<open>@returns {Promise<string>} Eliza's pattern-matched response\<close>:
  \<^verbatim>\<open>const response = getBotResponse(message); resolve(message);\<close>
\<close>

definition ElizaService_getResponse_part_001 ::
  "(string \<Rightarrow> error + string) \<Rightarrow> string \<Rightarrow> message list \<Rightarrow> string promise" where
  "ElizaService_getResponse_part_001 getBotResponse msg history =
     (case getBotResponse msg of
        Inl e \<Rightarrow> Pending
      | Inr response \<Rightarrow> Resolved msg)"

subsection \<open>GeminiService (src/services/GeminiService.js)\<close>

record geminiService =
  apiKey :: "string option"
  endpoint :: string
  maxRetries :: nat

text \<open>The constructor; \<open>None\<close> is an \<open>apiKey\<close> that is \<open>undefined\<close> or \<open>null\<close>.\<close>

definition newGeminiService :: "string option \<Rightarrow> geminiService" where
  "newGeminiService key =
     \<lparr>apiKey = key,
      endpoint = ''https://generativelanguage.googleapis.com/v1beta/models/gemini-pro:generateContent'',
      maxRetries = 2\<rparr>"

text \<open>An element of the request's \<open>contents\<close>: \<open>{role, parts: [{text}]}\<close>.\<close>

record content =
  role :: string
  parts :: "string list"

text \<open>
  Calling a property of the array \<open>contents\<close> with one argument.  \<open>push\<close> and
  \<open>unshift\<close> are methods of \<open>Array.prototype\<close> that add the argument; a name
  that is no property of the array reads as \<open>undefined\<close>, and calling it throws a
  \<open>TypeError\<close> (its message in V8's wording).  The program uses the names
  \<open>push\<close> and \<open>psu\<close>.
\<close>

definition arrayMethod :: "string \<Rightarrow> (content list \<Rightarrow> content \<Rightarrow> content list) option" where
  "arrayMethod name =
     (if name = ''push'' then Some (\<lambda>xs x. xs @ [x])
      else if name = ''unshift'' then Some (\<lambda>xs x. x # xs)
      else None)"

definition callMethod :: "string \<Rightarrow> content list \<Rightarrow> content \<Rightarrow> error + content list" where
  "callMethod name contents x =
     (case arrayMethod name of
        None \<Rightarrow> Inl (TypeError (''contents.'' @ name @ '' is not a function''))
      | Some m \<Rightarrow> Inr (m contents x))"

text \<open>\<open>recentHistory.forEach(msg => contents.push({...}))\<close>.\<close>

fun forEach_push :: "message list \<Rightarrow> content list \<Rightarrow> error + content list" where
  "forEach_push [] contents = Inr contents"
| "forEach_push (msg # rest) contents =
     (case callMethod ''push'' contents
             \<lparr>role = (if isUser msg then ''user'' else ''model''), parts = [text_msg msg]\<rparr> of
        Inl e \<Rightarrow> Inl e
      | Inr contents' \<Rightarrow> forEach_push rest contents')"

text \<open>
  \<open>_buildContents(message, history)\<close>: \<open>history.slice(-10)\<close> is the last ten
  elements; the current message is added with \<open>contents.psu({...})\<close>.
\<close>

definition buildContents :: "string \<Rightarrow> message list \<Rightarrow> error + content list" where
  "buildContents msg history =
     (let recentHistory = drop (length history - 10) history in
      case forEach_push recentHistory [] of
        Inl e \<Rightarrow> Inl e
      | Inr contents \<Rightarrow> callMethod ''psu'' contents \<lparr>role = ''user'', parts = [msg]\<rparr>)"

text \<open>
  The response of the API as \<open>_extractText\<close> reads it: \<open>candidates\<close> (absent or
  an array), and of a candidate \<open>finishReason\<close> and
  \<open>content?.parts?.[0]?.text\<close>.
\<close>

record candidate =
  finishReason :: "string option"
  candidateText :: "string option"

record apiResponse =
  candidates :: "candidate list option"

text \<open>
  \<open>_extractText(response)\<close>: whatever is thrown inside its \<open>try\<close> is replaced by
  \<open>Error('Failed to parse AI response')\<close>.
\<close>

definition extractText :: "apiResponse \<Rightarrow> error + string" where
  "extractText response =
     (case candidates response of
        None \<Rightarrow> Inl (Error ''Failed to parse AI response'')
      | Some [] \<Rightarrow> Inl (Error ''Failed to parse AI response'')
      | Some (c # cs) \<Rightarrow>
          if finishReason c = Some ''SAFETY''
          then Inr ''I apologize, but I can't respond to that due to safety guidelines.''
          else (case candidateText c of
                  None \<Rightarrow> Inl (Error ''Failed to parse AI response'')
                | Some t \<Rightarrow>
                    if t = [] then Inl (Error ''Failed to parse AI response'')
                    else Inr (trim t)))"

text \<open>
  The methods by name: the class \<open>GeminiService\<close> declares \<open>constructor\<close>,
  \<open>getResponse\<close>, \<open>_buildContents\<close>, \<open>_extractText\<close> and \<open>getName\<close>, its
  parent \<open>AIService\<close> declares \<open>constructor\<close>, \<open>getResponse\<close> and \<open>getName\<close>,
  and the constructor assigns \<open>apiKey\<close>, \<open>endpoint\<close> and \<open>maxRetries\<close> only.
  A name that is none of these reads as \<open>undefined\<close> on \<open>this\<close>.
\<close>

definition GeminiService_methods :: "string list" where
  "GeminiService_methods =
     [''constructor'', ''getResponse'', ''_buildContents'', ''_extractText'', ''getName'']"

definition AIService_methods :: "string list" where
  "AIService_methods = [''constructor'', ''getResponse'', ''getName'']"

definition declaresMethod :: "string \<Rightarrow> bool" where
  "declaresMethod name =
     (name \<in> set GeminiService_methods \<or> name \<in> set AIService_methods)"

definition errorMessage :: "error \<Rightarrow> string" where
  "errorMessage e = (case e of Error m \<Rightarrow> m | TypeError m \<Rightarrow> m)"

text \<open>
  The \<open>try\<close> block of \<open>getResponse\<close>:
  \<^verbatim>\<open>const response = await this._makeRequest(contents); return this._extractText(response);\<close>
  The argument \<open>send\<close> stands for the request a method \<open>_makeRequest\<close> would
  make, were one declared.  The \<open>catch\<close> replaces every exception by
  \<open>Error(`Gemini failed: ${error.message}`)\<close>.
\<close>

definition requestAndExtract ::
  "(content list \<Rightarrow> error + apiResponse) \<Rightarrow> content list \<Rightarrow> string promise" where
  "requestAndExtract send contents =
     (case (if declaresMethod ''_makeRequest''
            then (case send contents of
                    Inl e \<Rightarrow> Inl e
                  | Inr response \<Rightarrow> extractText response)
            else Inl (TypeError ''this._makeRequest is not a function'')) of
        Inl e \<Rightarrow> Rejected (Error (''Gemini failed: '' @ errorMessage e))
      | Inr t \<Rightarrow> Resolved t)"

text \<open>
  \<open>getResponse(message, history)\<close>.  The key is checked first; \<open>_buildContents\<close>
  is called outside the \<open>try\<close>, so its exception rejects the promise as it is.
\<close>

definition GeminiService_getResponse ::
  "(content list \<Rightarrow> error + apiResponse) \<Rightarrow> geminiService \<Rightarrow> string \<Rightarrow> message list
     \<Rightarrow> string promise" where
  "GeminiService_getResponse send this msg history =
     (if apiKey this = None \<or> apiKey this = Some []
      then Rejected (Error ''Gemini API key is required'')
      else
        case buildContents msg history of
          Inl e \<Rightarrow> Rejected e
        | Inr contents \<Rightarrow> requestAndExtract send contents)"

section \<open>The dialogue engine\<close>

text \<open>
  Modelled from the spec: the dialogue engine (\<open>eliza.js\<close>, whose \<open>getBotResponse\<close>
  the services import) is not among the sources.  The definitions of this section
  follow the spec's data model (section 3) and component contracts (sections 4.2,
  4.5 and 6).
\<close>

subsection \<open>Data model\<close>

text \<open>
  Modelled from the spec: \<open>eliza.js\<close> is not among the sources.
  A decomposition pattern is an ordered sequence of literal
  tokens and wildcard markers.
\<close>

datatype patternItem = Literal string | Wildcard

text \<open>
  Modelled from the spec: \<open>eliza.js\<close> is not among the sources.
  A reassembly template is a string with positional
  placeholders (0-based indices into the captures) and literal text spans.
\<close>

datatype templateItem = Span string | Placeholder nat

text \<open>
  Modelled from the spec: \<open>eliza.js\<close> is not among the sources.
  \<open>DecompositionPattern\<close>.
\<close>

record decompositionPattern =
  pattern :: "patternItem list"
  reassemblies :: "templateItem list list"
  memoryFlag :: bool

text \<open>
  Modelled from the spec: \<open>eliza.js\<close> is not among the sources.
  \<open>Rule\<close>.
\<close>

record rule =
  keyword :: string
  rank :: int
  decompositions :: "decompositionPattern list"

text \<open>
  Modelled from the spec: \<open>eliza.js\<close> is not among the sources.
  \<open>SynonymGroup\<close>.
\<close>

record synonymGroup =
  canonicalKeyword :: string
  members :: "string list"

text \<open>
  Modelled from the spec: \<open>eliza.js\<close> is not among the sources.
  The script the rule-table load accepts, an ordered list of
  rules, a list of synonym groups and a list of fallback responses.
\<close>

record script =
  rules :: "rule list"
  synonymGroups :: "synonymGroup list"
  fallbacks :: "string list"

text \<open>
  Modelled from the spec: \<open>eliza.js\<close> is not among the sources.
  The Rule Store, the rules built into a lookup keyed by
  keyword, with the synonym groups and the fallback responses of the script.
\<close>

record ruleStore =
  index :: "string \<rightharpoonup> rule"
  groups :: "synonymGroup list"
  fallbackList :: "string list"

text \<open>
  Modelled from the spec: \<open>eliza.js\<close> is not among the sources.
  \<open>SessionState\<close>.  A usage counter is keyed by
  (keyword, patternIndex) and starts at 0.
\<close>

record sessionState =
  usageCounters :: "string \<times> nat \<Rightarrow> nat"
  memoryQueue :: "string list"
  fallbackCounter :: nat

text \<open>
  Modelled from the spec: \<open>eliza.js\<close> is not among the sources.
  \<open>createSession\<close> produces a fresh, empty session.
\<close>

definition createSession :: sessionState where
  "createSession = \<lparr>usageCounters = (\<lambda>key. 0), memoryQueue = [], fallbackCounter = 0\<rparr>"

text \<open>
  Modelled from the spec: \<open>eliza.js\<close> is not among the sources.
  The error taxonomy of section 7.  A \<open>ConfigurationError\<close>
  signals the rule (keyword) and pattern (index) that caused it.
\<close>

datatype engineError = ScriptError | ConfigurationError string nat

subsection \<open>Rule-table load\<close>

text \<open>
  Modelled from the spec: \<open>eliza.js\<close> is not among the sources.
  The capture slots of a pattern, one per wildcard marker.
\<close>

definition wildcardCount :: "patternItem list \<Rightarrow> nat" where
  "wildcardCount p = length (filter (\<lambda>x. x = Wildcard) p)"

text \<open>
  Modelled from the spec: \<open>eliza.js\<close> is not among the sources.
  A template is accepted when each of its placeholder
  indices has a corresponding wildcard in the pattern (\<open>n\<close> wildcards).
\<close>

fun templateOk :: "nat \<Rightarrow> templateItem list \<Rightarrow> bool" where
  "templateOk n [] = True"
| "templateOk n (Span s # t) = templateOk n t"
| "templateOk n (Placeholder k # t) = (k < n \<and> templateOk n t)"

text \<open>
  Modelled from the spec: \<open>eliza.js\<close> is not among the sources.
  A decomposition pattern is accepted when it has at least
  one reassembly template and every template is accepted.
\<close>

definition decompositionOk :: "decompositionPattern \<Rightarrow> bool" where
  "decompositionOk d =
     (reassemblies d \<noteq> [] \<and> list_all (templateOk (wildcardCount (pattern d))) (reassemblies d))"

text \<open>
  Modelled from the spec: \<open>eliza.js\<close> is not among the sources.
  The rules are entered into the lookup one after the other;
  a keyword that is already there, or a rule with a decomposition pattern that is
  not accepted, fails the load with \<open>ScriptError\<close>.
\<close>

fun buildIndex :: "rule list \<Rightarrow> (string \<rightharpoonup> rule) \<Rightarrow> engineError + (string \<rightharpoonup> rule)" where
  "buildIndex [] idx = Inr idx"
| "buildIndex (r # rs) idx =
     (if idx (keyword r) \<noteq> None then Inl ScriptError
      else if list_all decompositionOk (decompositions r)
      then buildIndex rs (idx(keyword r \<mapsto> r))
      else Inl ScriptError)"

text \<open>
  Modelled from the spec: \<open>eliza.js\<close> is not among the sources.
  The rule-table load.  Only a load that succeeds yields a
  Rule Store, so no turn is served from a script that failed to load.
\<close>

definition loadScript :: "script \<Rightarrow> engineError + ruleStore" where
  "loadScript s =
     (case buildIndex (rules s) Map.empty of
        Inl e \<Rightarrow> Inl e
      | Inr idx \<Rightarrow> Inr \<lparr>index = idx, groups = synonymGroups s, fallbackList = fallbacks s\<rparr>)"

subsection \<open>Keyword Selector\<close>

text \<open>
  Modelled from the spec: \<open>eliza.js\<close> is not among the sources.
  A token is resolved through synonym-group membership to
  the canonical keyword of its group; a token of no group stands for itself.
\<close>

definition canonical :: "synonymGroup list \<Rightarrow> string \<Rightarrow> string" where
  "canonical gs w =
     (case find (\<lambda>g. w \<in> set (members g)) gs of
        None \<Rightarrow> w
      | Some g \<Rightarrow> canonicalKeyword g)"

text \<open>
  Modelled from the spec: \<open>eliza.js\<close> is not among the sources.
  The candidates are the rules of the tokens that, once
  resolved, match a rule keyword, in the order of the tokens in the input.
\<close>

definition candidates :: "ruleStore \<Rightarrow> string list \<Rightarrow> rule list" where
  "candidates store tokens =
     List.map_filter (\<lambda>w. index store (canonical (groups store) w)) tokens"

text \<open>
  Modelled from the spec: \<open>eliza.js\<close> is not among the sources.
  Of the best candidate so far and the next one, the higher
  rank wins, and on equal rank the earlier one stays.
\<close>

definition keepBest :: "rule option \<Rightarrow> rule \<Rightarrow> rule option" where
  "keepBest best c =
     (case best of
        None \<Rightarrow> Some c
      | Some b \<Rightarrow> if rank b < rank c then Some c else Some b)"

text \<open>
  Modelled from the spec: \<open>eliza.js\<close> is not among the sources.
  The Keyword Selector; \<open>None\<close> is the outcome "no-match".
\<close>

definition selectKeyword :: "ruleStore \<Rightarrow> string list \<Rightarrow> rule option" where
  "selectKeyword store tokens = foldl keepBest None (candidates store tokens)"

subsection \<open>Reassembly Generator\<close>

text \<open>
  Modelled from the spec: \<open>eliza.js\<close> is not among the sources.
  Each placeholder is replaced by its capture; an index with
  no capture is the \<open>ConfigurationError\<close> of the rule and pattern \<open>key\<close>.
\<close>

fun substitute :: "string \<times> nat \<Rightarrow> templateItem list \<Rightarrow> string list \<Rightarrow> engineError + string" where
  "substitute key [] captures = Inr []"
| "substitute key (Span s # t) captures =
     (case substitute key t captures of
        Inl e \<Rightarrow> Inl e
      | Inr filled \<Rightarrow> Inr (s @ filled))"
| "substitute key (Placeholder k # t) captures =
     (if k < length captures
      then (case substitute key t captures of
              Inl e \<Rightarrow> Inl e
            | Inr filled \<Rightarrow> Inr (captures ! k @ filled))
      else Inl (ConfigurationError (fst key) (snd key)))"

text \<open>
  Modelled from the spec: \<open>eliza.js\<close> is not among the sources.
  The index \<open>counter % length\<close> of the template the
  generator selects for (keyword, pattern) \<open>key\<close> in a session.
\<close>

definition templateIndex :: "templateItem list list \<Rightarrow> string \<times> nat \<Rightarrow> sessionState \<Rightarrow> nat" where
  "templateIndex templates key session = usageCounters session key mod length templates"

text \<open>
  Modelled from the spec: \<open>eliza.js\<close> is not among the sources.
  The Reassembly Generator selects
  \<open>reassemblies[counter % length]\<close>, substitutes the captures, increments the counter
  and stores it back into the session, and returns the filled string.  The spec
  excludes an empty template list by the invariant of the data model; the model
  answers it with the \<open>ConfigurationError\<close> of the pattern.
\<close>

definition reassemble ::
  "templateItem list list \<Rightarrow> string \<times> nat \<Rightarrow> string list \<Rightarrow> sessionState
     \<Rightarrow> engineError + string \<times> sessionState" where
  "reassemble templates key captures session =
     (if templates = [] then Inl (ConfigurationError (fst key) (snd key))
      else
        case substitute key (templates ! templateIndex templates key session) captures of
          Inl e \<Rightarrow> Inl e
        | Inr filled \<Rightarrow>
            Inr (filled,
                 session\<lparr>usageCounters :=
                   (usageCounters session)(key := usageCounters session key + 1)\<rparr>))"

text \<open>
  Modelled from the spec: \<open>eliza.js\<close> is not among the sources.
  Invoking the same (keyword, pattern) once per element of
  \<open>captureLists\<close> within one session; the result lists, per invocation, the index of
  the template used and the filled string.
\<close>

fun invocations ::
  "templateItem list list \<Rightarrow> string \<times> nat \<Rightarrow> string list list \<Rightarrow> sessionState
     \<Rightarrow> engineError + (nat \<times> string) list \<times> sessionState" where
  "invocations templates key [] session = Inr ([], session)"
| "invocations templates key (captures # captureLists) session =
     (case reassemble templates key captures session of
        Inl e \<Rightarrow> Inl e
      | Inr (filled, session') \<Rightarrow>
          (case invocations templates key captureLists session' of
             Inl e \<Rightarrow> Inl e
           | Inr (used, session'') \<Rightarrow>
               Inr ((templateIndex templates key session, filled) # used, session'')))"

section \<open>Properties of ChatModel\<close>

lemma list_all_dropWhile: "list_all P (dropWhile P xs) \<longleftrightarrow> list_all P xs"
  by (induction xs) simp_all

lemma trim_empty_iff: "trim s = [] \<longleftrightarrow> list_all isWhiteSpace s"
proof -
  have "trim s = [] \<longleftrightarrow> list_all isWhiteSpace (dropWhile isWhiteSpace s)"
    by (simp add: trim_def dropWhile_eq_Nil_conv list_all_iff)
  then show ?thesis
    by (simp add: list_all_dropWhile)
qed

text \<open>The guard of \<open>create\<close> and \<open>update\<close> holds of the strings of white space.\<close>

lemma emptyText_iff: "emptyText t \<longleftrightarrow> list_all isWhiteSpace t"
  by (auto simp: emptyText_def trim_empty_iff)

subsection \<open>create\<close>

text \<open>
  Claim C8, as amended.  \<open>create(text, isUser)\<close> throws
  \<open>Error('Message text cannot be empty')\<close> exactly when the text is empty or white
  space only.  For any other text it throws \<open>Error('Failed to save data')\<close> when
  \<open>localStorage.setItem\<close> throws.  Whenever it throws, the stored list is unchanged.
  Otherwise it returns the new message, which has the trimmed text, \<open>edited = false\<close>
  and the given \<open>isUser\<close>, and the stored list is the old one with exactly this
  message added at the end.
\<close>

theorem create_amended:
  "(list_all isWhiteSpace t \<longrightarrow>
      create t u uuid now st = (Inl (Error ''Message text cannot be empty''), st))
   \<and> (\<not> list_all isWhiteSpace t \<and> setItemThrows st \<longrightarrow>
      create t u uuid now st = (Inl (Error ''Failed to save data''), st))
   \<and> (\<not> list_all isWhiteSpace t \<and> \<not> setItemThrows st \<longrightarrow>
      (\<exists>m st'. create t u uuid now st = (Inr m, st')
          \<and> getAll st' = getAll st @ [m]
          \<and> m = \<lparr>id_msg = uuid, text_msg = trim t, isUser = u, timestamp = now,
                  edited = False, editedAt = None\<rparr>))"
proof (intro conjI impI)
  assume "list_all isWhiteSpace t"
  then have "emptyText t"
    by (simp add: emptyText_iff)
  then show "create t u uuid now st = (Inl (Error ''Message text cannot be empty''), st)"
    by (simp add: create_def)
next
  assume "\<not> list_all isWhiteSpace t \<and> setItemThrows st"
  then have "\<not> emptyText t" and "save st (getAll st @ [\<lparr>id_msg = uuid, text_msg = trim t,
      isUser = u, timestamp = now, edited = False, editedAt = None\<rparr>])
      = Inl (Error ''Failed to save data'')"
    by (simp_all add: emptyText_iff save_def)
  then show "create t u uuid now st = (Inl (Error ''Failed to save data''), st)"
    by (simp add: create_def Let_def)
next
  let ?m = "\<lparr>id_msg = uuid, text_msg = trim t, isUser = u, timestamp = now,
             edited = False, editedAt = None\<rparr>"
  let ?st' = "notifyObservers (st\<lparr>item := Messages (getAll st @ [?m])\<rparr>)"
  assume "\<not> list_all isWhiteSpace t \<and> \<not> setItemThrows st"
  then have "\<not> emptyText t"
    and "save st (getAll st @ [?m]) = Inr (st\<lparr>item := Messages (getAll st @ [?m])\<rparr>)"
    by (simp_all add: emptyText_iff save_def)
  then have "create t u uuid now st = (Inr ?m, ?st')"
    by (simp add: create_def Let_def)
  moreover have "getAll ?st' = getAll st @ [?m]"
    by (simp add: notifyObservers_def getAll_def)
  ultimately show "\<exists>m st'. create t u uuid now st = (Inr m, st')
          \<and> getAll st' = getAll st @ [m]
          \<and> m = ?m"
    by blast
qed

text \<open>
  The theorem at a text with white space around it, stored into an empty storage,
  at a text of one space, and at a storage whose write fails.
\<close>

theorem create_amended_witness:
  "create ''  hello '' True ''id-1'' 5 \<lparr>item = Absent, setItemThrows = False, notified = []\<rparr> =
     (Inr \<lparr>id_msg = ''id-1'', text_msg = ''hello'', isUser = True, timestamp = 5,
            edited = False, editedAt = None\<rparr>,
      \<lparr>item = Messages [\<lparr>id_msg = ''id-1'', text_msg = ''hello'', isUser = True, timestamp = 5,
            edited = False, editedAt = None\<rparr>], setItemThrows = False,
       notified = [[\<lparr>id_msg = ''id-1'', text_msg = ''hello'', isUser = True, timestamp = 5,
            edited = False, editedAt = None\<rparr>]]\<rparr>)
   \<and> create '' '' True ''id-1'' 5 \<lparr>item = Absent, setItemThrows = False, notified = []\<rparr> =
     (Inl (Error ''Message text cannot be empty''),
      \<lparr>item = Absent, setItemThrows = False, notified = []\<rparr>)
   \<and> create ''ok'' False ''id-2'' 6 \<lparr>item = Invalid, setItemThrows = True, notified = []\<rparr> =
     (Inl (Error ''Failed to save data''),
      \<lparr>item = Invalid, setItemThrows = True, notified = []\<rparr>)"
  using
    create_amended [of "''  hello ''" True "''id-1''" 5
      "\<lparr>item = Absent, setItemThrows = False, notified = []\<rparr>"]
    create_amended [of "'' ''" True "''id-1''" 5
      "\<lparr>item = Absent, setItemThrows = False, notified = []\<rparr>"]
    create_amended [of "''ok''" False "''id-2''" 6
      "\<lparr>item = Invalid, setItemThrows = True, notified = []\<rparr>"]
  by (simp add: isWhiteSpace_def trim_def create_def emptyText_def save_def notifyObservers_def
      getAll_def Let_def)

text \<open>
  Claim C8 as stated fails where the write to \<open>localStorage\<close> fails: the text
  \<open>hi\<close> is not white space, and \<open>create\<close> throws.
\<close>

theorem create_counterexample:
  "create ''hi'' True ''id-1'' 5 \<lparr>item = Messages [], setItemThrows = True, notified = []\<rparr> =
     (Inl (Error ''Failed to save data''),
      \<lparr>item = Messages [], setItemThrows = True, notified = []\<rparr>)
   \<and> \<not> list_all isWhiteSpace ''hi''"
  by (simp add: isWhiteSpace_def trim_def create_def emptyText_def save_def)

subsection \<open>update\<close>

lemma find_None_list_all: "find p xs = None \<longleftrightarrow> list_all (\<lambda>x. \<not> p x) xs"
  by (induction xs) simp_all

lemma find_Some_split:
  "find p xs = Some m \<Longrightarrow>
     \<exists>pre post. xs = pre @ m # post \<and> list_all (\<lambda>x. \<not> p x) pre \<and> p m
        \<and> updateFirst p f xs = pre @ f m # post"
proof (induction xs)
  case Nil
  then show ?case by simp
next
  case (Cons x xs)
  show ?case
  proof (cases "p x")
    case True
    with Cons.prems have "x = m" by simp
    with True have "x # xs = [] @ m # xs \<and> list_all (\<lambda>x. \<not> p x) [] \<and> p m
        \<and> updateFirst p f (x # xs) = [] @ f m # xs"
      by simp
    then show ?thesis by blast
  next
    case False
    with Cons.prems have "find p xs = Some m" by simp
    from Cons.IH [OF this] obtain pre post where
      h: "xs = pre @ m # post" "list_all (\<lambda>x. \<not> p x) pre" "p m"
         "updateFirst p f xs = pre @ f m # post"
      by blast
    with False have "x # xs = (x # pre) @ m # post \<and> list_all (\<lambda>x. \<not> p x) (x # pre) \<and> p m
        \<and> updateFirst p f (x # xs) = (x # pre) @ f m # post"
      by simp
    then show ?thesis by blast
  qed
qed

text \<open>
  Claim C9, as amended.  \<open>update(id, newText)\<close> throws
  \<open>Error('Message text cannot be empty')\<close> when \<open>newText\<close> is empty or white space
  only, whatever the id.  For any other \<open>newText\<close>: it returns \<open>null\<close> and leaves
  the storage unchanged when no message has the id; it throws
  \<open>Error('Cannot edit bot messages')\<close> and leaves the storage unchanged when the
  first message with the id is a bot message; when that message is a user
  message it throws \<open>Error('Failed to save data')\<close>, storage unchanged, if
  \<open>localStorage.setItem\<close> throws, and otherwise it sets this message's text (trimmed),
  \<open>edited\<close> and \<open>editedAt\<close>, and every other message, and the order, stay as they
  were.
\<close>

theorem update_amended:
  "(list_all isWhiteSpace newText \<longrightarrow>
      update ident newText now st = (Inl (Error ''Message text cannot be empty''), st))
   \<and> (\<not> list_all isWhiteSpace newText \<and> list_all (\<lambda>m. id_msg m \<noteq> ident) (getAll st) \<longrightarrow>
      update ident newText now st = (Inr None, st))
   \<and> (\<not> list_all isWhiteSpace newText \<and> find (\<lambda>m. id_msg m = ident) (getAll st) = Some msg
        \<and> \<not> isUser msg \<longrightarrow>
      update ident newText now st = (Inl (Error ''Cannot edit bot messages''), st))
   \<and> (\<not> list_all isWhiteSpace newText \<and> find (\<lambda>m. id_msg m = ident) (getAll st) = Some msg
        \<and> isUser msg \<and> setItemThrows st \<longrightarrow>
      update ident newText now st = (Inl (Error ''Failed to save data''), st))
   \<and> (\<not> list_all isWhiteSpace newText \<and> find (\<lambda>m. id_msg m = ident) (getAll st) = Some msg
        \<and> isUser msg \<and> \<not> setItemThrows st \<longrightarrow>
      (\<exists>pre post st'.
          getAll st = pre @ msg # post
        \<and> list_all (\<lambda>m. id_msg m \<noteq> ident) pre
        \<and> update ident newText now st =
            (Inr (Some (msg\<lparr>text_msg := trim newText, edited := True, editedAt := Some now\<rparr>)), st')
        \<and> getAll st' =
            pre @ msg\<lparr>text_msg := trim newText, edited := True, editedAt := Some now\<rparr> # post))"
proof (intro conjI impI)
  assume "list_all isWhiteSpace newText"
  then show "update ident newText now st = (Inl (Error ''Message text cannot be empty''), st)"
    by (simp add: update_def emptyText_iff)
next
  assume "\<not> list_all isWhiteSpace newText \<and> list_all (\<lambda>m. id_msg m \<noteq> ident) (getAll st)"
  then have "\<not> emptyText newText" "find (\<lambda>m. id_msg m = ident) (getAll st) = None"
    by (simp_all add: emptyText_iff find_None_list_all)
  then show "update ident newText now st = (Inr None, st)"
    by (simp add: update_def)
next
  assume "\<not> list_all isWhiteSpace newText \<and> find (\<lambda>m. id_msg m = ident) (getAll st) = Some msg
        \<and> \<not> isUser msg"
  then show "update ident newText now st = (Inl (Error ''Cannot edit bot messages''), st)"
    by (simp add: update_def emptyText_iff)
next
  assume "\<not> list_all isWhiteSpace newText \<and> find (\<lambda>m. id_msg m = ident) (getAll st) = Some msg
        \<and> isUser msg \<and> setItemThrows st"
  then show "update ident newText now st = (Inl (Error ''Failed to save data''), st)"
    by (simp add: update_def emptyText_iff save_def)
next
  let ?f = "\<lambda>m. m\<lparr>text_msg := trim newText, edited := True, editedAt := Some now\<rparr>"
  assume a: "\<not> list_all isWhiteSpace newText \<and> find (\<lambda>m. id_msg m = ident) (getAll st) = Some msg
        \<and> isUser msg \<and> \<not> setItemThrows st"
  then have fnd: "find (\<lambda>m. id_msg m = ident) (getAll st) = Some msg" by simp
  from find_Some_split [OF fnd, of ?f] obtain pre post where
    h: "getAll st = pre @ msg # post" "list_all (\<lambda>m. id_msg m \<noteq> ident) pre"
       "updateFirst (\<lambda>m. id_msg m = ident) ?f (getAll st) = pre @ ?f msg # post"
    by blast
  let ?st' = "notifyObservers (st\<lparr>item := Messages (pre @ ?f msg # post)\<rparr>)"
  have u: "update ident newText now st = (Inr (Some (?f msg)), ?st')"
    using a h(3) by (simp add: update_def emptyText_iff save_def)
  have g: "getAll ?st' = pre @ ?f msg # post"
    by (simp add: notifyObservers_def getAll_def)
  from h(1,2) u g show "\<exists>pre post st'.
          getAll st = pre @ msg # post
        \<and> list_all (\<lambda>m. id_msg m \<noteq> ident) pre
        \<and> update ident newText now st = (Inr (Some (?f msg)), st')
        \<and> getAll st' = pre @ ?f msg # post"
    by blast
qed

text \<open>
  The theorem at a storage of a user message \<open>a\<close> and a bot message \<open>b\<close>: editing
  \<open>a\<close>, editing \<open>b\<close>, and editing an id that is not there; and at a storage of
  \<open>a\<close> alone: a blank text, and a write that fails.
\<close>

theorem update_amended_witness:
  "update ''a'' '' new text '' 9
      \<lparr>item = Messages
         [\<lparr>id_msg = ''a'', text_msg = ''old'', isUser = True, timestamp = 10, edited = False, editedAt = None\<rparr>,
          \<lparr>id_msg = ''b'', text_msg = ''reply'', isUser = False, timestamp = 20, edited = False, editedAt = None\<rparr>],
       setItemThrows = False, notified = []\<rparr> =
     (Inr (Some \<lparr>id_msg = ''a'', text_msg = ''new text'', isUser = True, timestamp = 10, edited = True, editedAt = Some 9\<rparr>),
      \<lparr>item = Messages
         [\<lparr>id_msg = ''a'', text_msg = ''new text'', isUser = True, timestamp = 10, edited = True, editedAt = Some 9\<rparr>,
          \<lparr>id_msg = ''b'', text_msg = ''reply'', isUser = False, timestamp = 20, edited = False, editedAt = None\<rparr>],
       setItemThrows = False,
       notified = [[\<lparr>id_msg = ''a'', text_msg = ''new text'', isUser = True, timestamp = 10, edited = True, editedAt = Some 9\<rparr>,
          \<lparr>id_msg = ''b'', text_msg = ''reply'', isUser = False, timestamp = 20, edited = False, editedAt = None\<rparr>]]\<rparr>)
   \<and> update ''b'' ''x'' 9
      \<lparr>item = Messages
         [\<lparr>id_msg = ''a'', text_msg = ''old'', isUser = True, timestamp = 10, edited = False, editedAt = None\<rparr>,
          \<lparr>id_msg = ''b'', text_msg = ''reply'', isUser = False, timestamp = 20, edited = False, editedAt = None\<rparr>],
       setItemThrows = False, notified = []\<rparr> =
     (Inl (Error ''Cannot edit bot messages''),
      \<lparr>item = Messages
         [\<lparr>id_msg = ''a'', text_msg = ''old'', isUser = True, timestamp = 10, edited = False, editedAt = None\<rparr>,
          \<lparr>id_msg = ''b'', text_msg = ''reply'', isUser = False, timestamp = 20, edited = False, editedAt = None\<rparr>],
       setItemThrows = False, notified = []\<rparr>)
   \<and> update ''c'' ''x'' 9
      \<lparr>item = Messages
         [\<lparr>id_msg = ''a'', text_msg = ''old'', isUser = True, timestamp = 10, edited = False, editedAt = None\<rparr>,
          \<lparr>id_msg = ''b'', text_msg = ''reply'', isUser = False, timestamp = 20, edited = False, editedAt = None\<rparr>],
       setItemThrows = False, notified = []\<rparr> =
     (Inr None,
      \<lparr>item = Messages
         [\<lparr>id_msg = ''a'', text_msg = ''old'', isUser = True, timestamp = 10, edited = False, editedAt = None\<rparr>,
          \<lparr>id_msg = ''b'', text_msg = ''reply'', isUser = False, timestamp = 20, edited = False, editedAt = None\<rparr>],
       setItemThrows = False, notified = []\<rparr>)
   \<and> update ''a'' ''  '' 9
      \<lparr>item = Messages
         [\<lparr>id_msg = ''a'', text_msg = ''old'', isUser = True, timestamp = 10, edited = False, editedAt = None\<rparr>],
       setItemThrows = False, notified = []\<rparr> =
     (Inl (Error ''Message text cannot be empty''),
      \<lparr>item = Messages
         [\<lparr>id_msg = ''a'', text_msg = ''old'', isUser = True, timestamp = 10, edited = False, editedAt = None\<rparr>],
       setItemThrows = False, notified = []\<rparr>)
   \<and> update ''a'' ''x'' 9
      \<lparr>item = Messages
         [\<lparr>id_msg = ''a'', text_msg = ''old'', isUser = True, timestamp = 10, edited = False, editedAt = None\<rparr>],
       setItemThrows = True, notified = []\<rparr> =
     (Inl (Error ''Failed to save data''),
      \<lparr>item = Messages
         [\<lparr>id_msg = ''a'', text_msg = ''old'', isUser = True, timestamp = 10, edited = False, editedAt = None\<rparr>],
       setItemThrows = True, notified = []\<rparr>)"
proof -
  let ?a = "\<lparr>id_msg = ''a'', text_msg = ''old'', isUser = True, timestamp = 10, edited = False, editedAt = None\<rparr>"
  let ?b = "\<lparr>id_msg = ''b'', text_msg = ''reply'', isUser = False, timestamp = 20, edited = False, editedAt = None\<rparr>"
  let ?st = "\<lparr>item = Messages [?a, ?b], setItemThrows = False, notified = []\<rparr>"
  have ws: "\<not> list_all isWhiteSpace '' new text ''" "\<not> list_all isWhiteSpace ''x''"
    by (simp_all add: isWhiteSpace_def)
  have t: "trim '' new text '' = ''new text''"
    by (simp add: trim_def isWhiteSpace_def)
  have ga: "getAll ?st = [?a, ?b]"
    by (simp add: getAll_def)
  have c: "list_all (\<lambda>m. id_msg m \<noteq> ''c'') (getAll ?st)"
    by (simp add: getAll_def)
  have fa: "find (\<lambda>m. id_msg m = ''a'') (getAll ?st) = Some ?a"
    by (simp add: getAll_def)
  have fb: "find (\<lambda>m. id_msg m = ''b'') (getAll ?st) = Some ?b"
    by (simp add: getAll_def)
  from update_amended [where newText = "''x''" and ident = "''c''" and st = ?st and now = 9] ws c
  have 1: "update ''c'' ''x'' 9 ?st = (Inr None, ?st)" by blast
  from update_amended [where newText = "''x''" and ident = "''b''" and st = ?st and msg = ?b and now = 9] ws fb
  have 2: "update ''b'' ''x'' 9 ?st = (Inl (Error ''Cannot edit bot messages''), ?st)" by simp
  from update_amended [where newText = "'' new text ''" and ident = "''a''" and st = ?st and msg = ?a and now = 9] ws fa
  obtain pre post st' where
    3: "getAll ?st = pre @ ?a # post" "list_all (\<lambda>m. id_msg m \<noteq> ''a'') pre"
       "update ''a'' '' new text '' 9 ?st =
          (Inr (Some (?a\<lparr>text_msg := trim '' new text '', edited := True, editedAt := Some 9\<rparr>)), st')"
    by auto
  have 4: "update ''a'' '' new text '' 9 ?st =
     (Inr (Some \<lparr>id_msg = ''a'', text_msg = ''new text'', isUser = True, timestamp = 10, edited = True, editedAt = Some 9\<rparr>),
      \<lparr>item = Messages
         [\<lparr>id_msg = ''a'', text_msg = ''new text'', isUser = True, timestamp = 10, edited = True, editedAt = Some 9\<rparr>, ?b],
       setItemThrows = False,
       notified = [[\<lparr>id_msg = ''a'', text_msg = ''new text'', isUser = True, timestamp = 10, edited = True, editedAt = Some 9\<rparr>, ?b]]\<rparr>)"
    using 3(3) ws fa t
    by (simp add: update_def emptyText_iff save_def notifyObservers_def getAll_def Let_def)
  let ?s1 = "\<lparr>item = Messages [?a], setItemThrows = False, notified = []\<rparr>"
  let ?s2 = "\<lparr>item = Messages [?a], setItemThrows = True, notified = []\<rparr>"
  have blank: "list_all isWhiteSpace ''  ''"
    by (simp add: isWhiteSpace_def)
  from update_amended [where newText = "''  ''" and ident = "''a''" and st = ?s1 and now = 9] blank
  have 5: "update ''a'' ''  '' 9 ?s1 = (Inl (Error ''Message text cannot be empty''), ?s1)"
    by blast
  have f2: "find (\<lambda>m. id_msg m = ''a'') (getAll ?s2) = Some ?a"
    by (simp add: getAll_def)
  from update_amended [where newText = "''x''" and ident = "''a''" and st = ?s2 and msg = ?a and now = 9]
    ws f2
  have 6: "update ''a'' ''x'' 9 ?s2 = (Inl (Error ''Failed to save data''), ?s2)"
    by simp
  from 1 2 4 5 6 show ?thesis by simp
qed

text \<open>
  Claim C9 as stated fails for a blank \<open>newText\<close>: no message has the id \<open>c\<close>, and
  \<open>update\<close> throws instead of returning \<open>null\<close>.
\<close>

theorem update_counterexample:
  "update ''c'' '' '' 9 \<lparr>item = Messages [], setItemThrows = False, notified = []\<rparr> =
     (Inl (Error ''Message text cannot be empty''),
      \<lparr>item = Messages [], setItemThrows = False, notified = []\<rparr>)
   \<and> list_all (\<lambda>m. id_msg m \<noteq> ''c'')
        (getAll \<lparr>item = Messages [], setItemThrows = False, notified = []\<rparr>)"
  by (simp add: update_def emptyText_def trim_def isWhiteSpace_def getAll_def)

section \<open>Properties of the AI services\<close>

subsection \<open>ElizaService\<close>

lemma ElizaService_resolves_response:
  "getBotResponse msg = Inr response \<Longrightarrow>
     ElizaService_getResponse getBotResponse msg history = Resolved response"
  by (simp add: ElizaService_getResponse_def)

lemma ElizaService_never_rejects:
  "ElizaService_getResponse getBotResponse msg history \<noteq> Rejected e"
  by (simp add: ElizaService_getResponse_def split: sum.split)

text \<open>
  The two services at the message \<open>Hello\<close>, with an engine that answers it.
\<close>

lemma ElizaService_at_Hello:
  "ElizaService_getResponse (\<lambda>m. Inr ''How do you do. Please state your problem.'')
     ''Hello'' [] = Resolved ''How do you do. Please state your problem.''
   \<and> ElizaService_getResponse_part_001
     (\<lambda>m. Inr ''How do you do. Please state your problem.'') ''Hello'' [] = Resolved ''Hello''"
  by (simp add: ElizaService_getResponse_def ElizaService_getResponse_part_001_def)

text \<open>
  Claim C1 holds of the class of \<open>src/unnamed/part_005\<close> (lemma
  \<open>ElizaService_resolves_response\<close>) and fails for the class of
  \<open>src/unnamed/part_001\<close>: whatever the engine answers, that class resolves to
  the message it was given, or not at all.
\<close>

theorem ElizaService_part_001_echo:
  "ElizaService_getResponse_part_001 getBotResponse msg history \<in> {Pending, Resolved msg}"
  by (simp add: ElizaService_getResponse_part_001_def split: sum.split)

subsection \<open>GeminiService\<close>

lemma forEach_push_map:
  "forEach_push history contents =
     Inr (contents @
       map (\<lambda>msg. \<lparr>role = (if isUser msg then ''user'' else ''model''), parts = [text_msg msg]\<rparr>)
         history)"
  by (induction history arbitrary: contents) (simp_all add: callMethod_def arrayMethod_def)

lemma buildContents_throws:
  "buildContents msg history = Inl (TypeError ''contents.psu is not a function'')"
  by (simp add: buildContents_def forEach_push_map callMethod_def arrayMethod_def)

lemma makeRequest_undeclared: "\<not> declaresMethod ''_makeRequest''"
  by (simp add: declaresMethod_def GeminiService_methods_def AIService_methods_def)

text \<open>
  A service constructed with a key of the expected form, at the message \<open>Hello\<close>
  and an empty history.
\<close>

lemma GeminiService_with_key_at_Hello:
  "GeminiService_getResponse send (newGeminiService (Some ''AIzaSyA-0123456789abcdefghij''))
     ''Hello'' [] = Rejected (TypeError ''contents.psu is not a function'')"
  by (simp add: GeminiService_getResponse_def newGeminiService_def buildContents_def
      callMethod_def arrayMethod_def)

text \<open>
  Claim C10.  \<open>getResponse(message, history)\<close> of
  \<open>src/services/GeminiService.js\<close> rejects for every key, message and history:
  without a key with \<open>Error('Gemini API key is required')\<close>, and with a key with
  the \<open>TypeError\<close> of the call \<open>contents.psu(...)\<close> in \<open>_buildContents\<close>.  The
  \<open>try\<close> block it would go on to rejects too, for every \<open>contents\<close>, since no
  \<open>_makeRequest\<close> is declared.  So it never resolves to a response string.
\<close>

theorem GeminiService_getResponse_rejects:
  "GeminiService_getResponse send this msg history =
     Rejected (if apiKey this = None \<or> apiKey this = Some []
               then Error ''Gemini API key is required''
               else TypeError ''contents.psu is not a function'')
   \<and> requestAndExtract send contents =
     Rejected (Error ''Gemini failed: this._makeRequest is not a function'')"
proof
  show "GeminiService_getResponse send this msg history =
     Rejected (if apiKey this = None \<or> apiKey this = Some []
               then Error ''Gemini API key is required''
               else TypeError ''contents.psu is not a function'')"
    by (simp add: GeminiService_getResponse_def buildContents_throws)
next
  have "\<not> declaresMethod ''_makeRequest''"
    by (rule makeRequest_undeclared)
  then show "requestAndExtract send contents =
     Rejected (Error ''Gemini failed: this._makeRequest is not a function'')"
    by (simp add: requestAndExtract_def errorMessage_def)
qed

section \<open>Properties of the dialogue engine\<close>

subsection \<open>Rule-table load\<close>

lemma templateOk_iff: "templateOk n t \<longleftrightarrow> (\<forall>k. Placeholder k \<in> set t \<longrightarrow> k < n)"
  by (induction n t rule: templateOk.induct) auto

lemma not_decompositionOk_iff:
  "\<not> decompositionOk d \<longleftrightarrow>
     reassemblies d = []
     \<or> (\<exists>t\<in>set (reassemblies d). \<exists>k. Placeholder k \<in> set t \<and> wildcardCount (pattern d) \<le> k)"
  by (auto simp: decompositionOk_def list_all_iff templateOk_iff not_less)

lemma buildIndex_fails_iff:
  "buildIndex rs idx = Inl e \<longleftrightarrow>
     e = ScriptError
     \<and> ((\<exists>r\<in>set rs. keyword r \<in> dom idx)
        \<or> \<not> distinct (map keyword rs)
        \<or> (\<exists>r\<in>set rs. \<not> list_all decompositionOk (decompositions r)))"
proof (induction rs arbitrary: idx)
  case Nil
  then show ?case by simp
next
  case (Cons r rs)
  show ?case
  proof (cases "idx (keyword r) \<noteq> None \<or> \<not> list_all decompositionOk (decompositions r)")
    case True
    then have "buildIndex (r # rs) idx = Inl ScriptError"
      by auto
    moreover from True have "(\<exists>x\<in>set (r # rs). keyword x \<in> dom idx)
        \<or> (\<exists>x\<in>set (r # rs). \<not> list_all decompositionOk (decompositions x))"
      by (auto simp: dom_def)
    ultimately show ?thesis by auto
  next
    case False
    let ?idx = "idx(keyword r \<mapsto> r)"
    from False have step: "buildIndex (r # rs) idx = buildIndex rs ?idx"
      by simp
    have ih: "buildIndex rs ?idx = Inl e \<longleftrightarrow>
       e = ScriptError
       \<and> ((\<exists>x\<in>set rs. keyword x \<in> dom ?idx)
          \<or> \<not> distinct (map keyword rs)
          \<or> (\<exists>x\<in>set rs. \<not> list_all decompositionOk (decompositions x)))"
      by (rule Cons.IH)
    have d: "(\<exists>x\<in>set rs. keyword x \<in> dom ?idx) \<longleftrightarrow>
         keyword r \<in> keyword ` set rs \<or> (\<exists>x\<in>set rs. keyword x \<in> dom idx)"
      by (auto simp: image_iff) metis
    from False have k: "(\<exists>x\<in>set (r # rs). keyword x \<in> dom idx) \<longleftrightarrow>
         (\<exists>x\<in>set rs. keyword x \<in> dom idx)"
      by (auto simp: dom_def)
    have n: "\<not> distinct (map keyword (r # rs)) \<longleftrightarrow>
         keyword r \<in> keyword ` set rs \<or> \<not> distinct (map keyword rs)"
      by simp
    from False have o: "(\<exists>x\<in>set (r # rs). \<not> list_all decompositionOk (decompositions x)) \<longleftrightarrow>
         (\<exists>x\<in>set rs. \<not> list_all decompositionOk (decompositions x))"
      by simp
    show ?thesis
      unfolding step ih d k n o by blast
  qed
qed

lemma buildIndex_succeeds:
  "buildIndex rs idx = Inr idx' \<Longrightarrow> idx' = idx ++ map_of (map (\<lambda>r. (keyword r, r)) rs)"
proof (induction rs arbitrary: idx)
  case Nil
  then show ?case by simp
next
  case (Cons r rs)
  from Cons.prems have ok: "idx (keyword r) = None" "list_all decompositionOk (decompositions r)"
    and rest: "buildIndex rs (idx(keyword r \<mapsto> r)) = Inr idx'"
    by (auto split: if_splits)
  from rest have nd: "keyword r \<notin> keyword ` set rs"
    using buildIndex_fails_iff [of rs "idx(keyword r \<mapsto> r)" ScriptError]
    by (auto simp: dom_def)
  then have none: "map_of (map (\<lambda>r. (keyword r, r)) rs) (keyword r) = None"
    by (simp add: map_of_eq_None_iff image_image)
  have "idx' = idx(keyword r \<mapsto> r) ++ map_of (map (\<lambda>r. (keyword r, r)) rs)"
    by (rule Cons.IH [OF rest])
  also have "\<dots> = idx ++ map_of (map (\<lambda>r. (keyword r, r)) (r # rs))"
  proof (rule ext)
    fix k
    show "(idx(keyword r \<mapsto> r) ++ map_of (map (\<lambda>r. (keyword r, r)) rs)) k =
          (idx ++ map_of (map (\<lambda>r. (keyword r, r)) (r # rs))) k"
      using none by (cases "k = keyword r") (simp_all add: map_add_def split: option.split)
  qed
  finally show ?case .
qed

lemma not_distinct_iff_nth:
  "\<not> distinct xs \<longleftrightarrow> (\<exists>i j. i < j \<and> j < length xs \<and> xs ! i = xs ! j)"
proof
  assume "\<not> distinct xs"
  then obtain i j where ij: "i < length xs" "j < length xs" "i \<noteq> j" "xs ! i = xs ! j"
    by (auto simp: distinct_conv_nth)
  show "\<exists>i j. i < j \<and> j < length xs \<and> xs ! i = xs ! j"
  proof (cases "i < j")
    case True
    with ij show ?thesis by blast
  next
    case False
    with ij have "j < i \<and> i < length xs \<and> xs ! j = xs ! i" by simp
    then show ?thesis by blast
  qed
next
  assume "\<exists>i j. i < j \<and> j < length xs \<and> xs ! i = xs ! j"
  then obtain i j where "i < j" "j < length xs" "xs ! i = xs ! j" by blast
  then have "i < length xs \<and> j < length xs \<and> i \<noteq> j \<and> xs ! i = xs ! j" by simp
  then show "\<not> distinct xs"
    unfolding distinct_conv_nth by blast
qed

lemma not_distinct_map_iff_nth:
  "\<not> distinct (map f xs) \<longleftrightarrow> (\<exists>i j. i < j \<and> j < length xs \<and> f (xs ! i) = f (xs ! j))"
proof -
  have "(\<exists>i j. i < j \<and> j < length (map f xs) \<and> map f xs ! i = map f xs ! j) \<longleftrightarrow>
        (\<exists>i j. i < j \<and> j < length xs \<and> f (xs ! i) = f (xs ! j))"
  proof (intro iffI)
    assume "\<exists>i j. i < j \<and> j < length (map f xs) \<and> map f xs ! i = map f xs ! j"
    then obtain i j where "i < j" "j < length xs" "map f xs ! i = map f xs ! j" by auto
    then have "i < j \<and> j < length xs \<and> f (xs ! i) = f (xs ! j)" by simp
    then show "\<exists>i j. i < j \<and> j < length xs \<and> f (xs ! i) = f (xs ! j)" by blast
  next
    assume "\<exists>i j. i < j \<and> j < length xs \<and> f (xs ! i) = f (xs ! j)"
    then obtain i j where "i < j" "j < length xs" "f (xs ! i) = f (xs ! j)" by auto
    then have "i < j \<and> j < length (map f xs) \<and> map f xs ! i = map f xs ! j" by simp
    then show "\<exists>i j. i < j \<and> j < length (map f xs) \<and> map f xs ! i = map f xs ! j" by blast
  qed
  then show ?thesis
    by (simp only: not_distinct_iff_nth)
qed

text \<open>
  Claim C7.  The rule-table load fails with \<open>ScriptError\<close> exactly when the script
  is malformed: two rules have the same keyword, or a decomposition pattern has no
  reassembly template, or a reassembly template has a placeholder whose index is
  not below the number of wildcards of its pattern.  A load that does not fail
  yields the Rule Store of the script, and there is no store to serve a turn from
  when it fails.
\<close>

theorem loadScript_ScriptError_iff:
  "(loadScript s = Inl ScriptError \<longleftrightarrow>
      (\<exists>i j. i < j \<and> j < length (rules s) \<and> keyword (rules s ! i) = keyword (rules s ! j))
      \<or> (\<exists>r\<in>set (rules s). \<exists>d\<in>set (decompositions r). reassemblies d = [])
      \<or> (\<exists>r\<in>set (rules s). \<exists>d\<in>set (decompositions r). \<exists>t\<in>set (reassemblies d).
            \<exists>k. Placeholder k \<in> set t \<and> wildcardCount (pattern d) \<le> k))
   \<and> (loadScript s = Inl ScriptError \<or>
        loadScript s =
          Inr \<lparr>index = map_of (map (\<lambda>r. (keyword r, r)) (rules s)),
               groups = synonymGroups s, fallbackList = fallbacks s\<rparr>)"
proof -
  let ?dup = "\<exists>i j. i < j \<and> j < length (rules s) \<and> keyword (rules s ! i) = keyword (rules s ! j)"
  let ?bad = "\<exists>r\<in>set (rules s). \<not> list_all decompositionOk (decompositions r)"
  have dup: "\<not> distinct (map keyword (rules s)) \<longleftrightarrow> ?dup"
    by (rule not_distinct_map_iff_nth)
  have bad: "?bad \<longleftrightarrow>
      (\<exists>r\<in>set (rules s). \<exists>d\<in>set (decompositions r). reassemblies d = [])
      \<or> (\<exists>r\<in>set (rules s). \<exists>d\<in>set (decompositions r). \<exists>t\<in>set (reassemblies d).
            \<exists>k. Placeholder k \<in> set t \<and> wildcardCount (pattern d) \<le> k)"
    by (auto simp: list_all_iff not_decompositionOk_iff)
  have fails: "loadScript s = Inl ScriptError \<longleftrightarrow> \<not> distinct (map keyword (rules s)) \<or> ?bad"
    using buildIndex_fails_iff [of "rules s" Map.empty ScriptError]
    by (auto simp: loadScript_def split: sum.splits)
  have total: "loadScript s = Inl ScriptError \<or>
        loadScript s =
          Inr \<lparr>index = map_of (map (\<lambda>r. (keyword r, r)) (rules s)),
               groups = synonymGroups s, fallbackList = fallbacks s\<rparr>"
  proof (cases "buildIndex (rules s) Map.empty")
    case (Inl e)
    then have "e = ScriptError"
      using buildIndex_fails_iff [of "rules s" Map.empty e] by simp
    with Inl show ?thesis by (simp add: loadScript_def)
  next
    case (Inr idx)
    from buildIndex_succeeds [OF this] Inr show ?thesis
      by (simp add: loadScript_def)
  qed
  from fails dup bad total show ?thesis by blast
qed

text \<open>
  The theorem at the script of the spec's example, a template that refers to capture
  index 2 where the pattern has one wildcard, and at the same script with index 0.
\<close>

theorem loadScript_ScriptError_example:
  "loadScript
     \<lparr>rules =
        [\<lparr>keyword = ''dream'', rank = 3,
          decompositions =
            [\<lparr>pattern = [Literal ''i'', Literal ''dream'', Wildcard],
              reassemblies = [[Span ''What does '', Placeholder 2, Span '' suggest to you?'']],
              memoryFlag = False\<rparr>]\<rparr>],
      synonymGroups = [], fallbacks = [''Please go on.'']\<rparr> = Inl ScriptError
   \<and> loadScript
     \<lparr>rules =
        [\<lparr>keyword = ''dream'', rank = 3,
          decompositions =
            [\<lparr>pattern = [Literal ''i'', Literal ''dream'', Wildcard],
              reassemblies = [[Span ''What does '', Placeholder 0, Span '' suggest to you?'']],
              memoryFlag = False\<rparr>]\<rparr>],
      synonymGroups = [], fallbacks = [''Please go on.'']\<rparr> \<noteq> Inl ScriptError"
  using loadScript_ScriptError_iff [of "\<lparr>rules =
        [\<lparr>keyword = ''dream'', rank = 3,
          decompositions =
            [\<lparr>pattern = [Literal ''i'', Literal ''dream'', Wildcard],
              reassemblies = [[Span ''What does '', Placeholder 2, Span '' suggest to you?'']],
              memoryFlag = False\<rparr>]\<rparr>],
      synonymGroups = [], fallbacks = [''Please go on.'']\<rparr>"]
    loadScript_ScriptError_iff [of "\<lparr>rules =
        [\<lparr>keyword = ''dream'', rank = 3,
          decompositions =
            [\<lparr>pattern = [Literal ''i'', Literal ''dream'', Wildcard],
              reassemblies = [[Span ''What does '', Placeholder 0, Span '' suggest to you?'']],
              memoryFlag = False\<rparr>]\<rparr>],
      synonymGroups = [], fallbacks = [''Please go on.'']\<rparr>"]
  by (simp add: wildcardCount_def)

subsection \<open>Keyword Selector\<close>

lemma foldl_keepBest_Some:
  "\<exists>r. foldl keepBest (Some b) cs = Some r
     \<and> ((r = b \<and> (\<forall>c\<in>set cs. rank c \<le> rank b))
        \<or> (\<exists>pre post. cs = pre @ r # post \<and> rank b < rank r
              \<and> (\<forall>c\<in>set pre. rank c < rank r) \<and> (\<forall>c\<in>set post. rank c \<le> rank r)))"
proof (induction cs arbitrary: b)
  case Nil
  then show ?case by simp
next
  case (Cons c cs)
  show ?case
  proof (cases "rank b < rank c")
    case True
    then have step: "foldl keepBest (Some b) (c # cs) = foldl keepBest (Some c) cs"
      by (simp add: keepBest_def)
    from Cons.IH [of c] obtain r where r: "foldl keepBest (Some c) cs = Some r"
      and alt: "(r = c \<and> (\<forall>x\<in>set cs. rank x \<le> rank c))
        \<or> (\<exists>pre post. cs = pre @ r # post \<and> rank c < rank r
              \<and> (\<forall>x\<in>set pre. rank x < rank r) \<and> (\<forall>x\<in>set post. rank x \<le> rank r))"
      by blast
    from alt show ?thesis
    proof
      assume "r = c \<and> (\<forall>x\<in>set cs. rank x \<le> rank c)"
      with True have "c # cs = [] @ r # cs \<and> rank b < rank r
          \<and> (\<forall>x\<in>set []. rank x < rank r) \<and> (\<forall>x\<in>set cs. rank x \<le> rank r)"
        by simp
      with r step show ?thesis by metis
    next
      assume "\<exists>pre post. cs = pre @ r # post \<and> rank c < rank r
              \<and> (\<forall>x\<in>set pre. rank x < rank r) \<and> (\<forall>x\<in>set post. rank x \<le> rank r)"
      then obtain pre post where "cs = pre @ r # post" "rank c < rank r"
        "\<forall>x\<in>set pre. rank x < rank r" "\<forall>x\<in>set post. rank x \<le> rank r"
        by blast
      with True have "c # cs = (c # pre) @ r # post \<and> rank b < rank r
          \<and> (\<forall>x\<in>set (c # pre). rank x < rank r) \<and> (\<forall>x\<in>set post. rank x \<le> rank r)"
        by simp
      with r step show ?thesis by metis
    qed
  next
    case False
    then have step: "foldl keepBest (Some b) (c # cs) = foldl keepBest (Some b) cs"
      by (simp add: keepBest_def)
    from Cons.IH [of b] obtain r where r: "foldl keepBest (Some b) cs = Some r"
      and alt: "(r = b \<and> (\<forall>x\<in>set cs. rank x \<le> rank b))
        \<or> (\<exists>pre post. cs = pre @ r # post \<and> rank b < rank r
              \<and> (\<forall>x\<in>set pre. rank x < rank r) \<and> (\<forall>x\<in>set post. rank x \<le> rank r))"
      by blast
    from alt show ?thesis
    proof
      assume "r = b \<and> (\<forall>x\<in>set cs. rank x \<le> rank b)"
      with False have "r = b \<and> (\<forall>x\<in>set (c # cs). rank x \<le> rank b)"
        by simp
      with r step show ?thesis by metis
    next
      assume "\<exists>pre post. cs = pre @ r # post \<and> rank b < rank r
              \<and> (\<forall>x\<in>set pre. rank x < rank r) \<and> (\<forall>x\<in>set post. rank x \<le> rank r)"
      then obtain pre post where "cs = pre @ r # post" "rank b < rank r"
        "\<forall>x\<in>set pre. rank x < rank r" "\<forall>x\<in>set post. rank x \<le> rank r"
        by blast
      with False have "c # cs = (c # pre) @ r # post \<and> rank b < rank r
          \<and> (\<forall>x\<in>set (c # pre). rank x < rank r) \<and> (\<forall>x\<in>set post. rank x \<le> rank r)"
        by simp
      with r step show ?thesis by metis
    qed
  qed
qed

lemma foldl_keepBest_None:
  assumes "cs \<noteq> []"
  shows "\<exists>r pre post. foldl keepBest None cs = Some r \<and> cs = pre @ r # post
     \<and> (\<forall>c\<in>set pre. rank c < rank r) \<and> (\<forall>c\<in>set post. rank c \<le> rank r)"
proof -
  from assms obtain b rest where cs: "cs = b # rest"
    by (cases cs) auto
  then have step: "foldl keepBest None cs = foldl keepBest (Some b) rest"
    by (simp add: keepBest_def)
  from foldl_keepBest_Some [of b rest] obtain r where r: "foldl keepBest (Some b) rest = Some r"
    and alt: "(r = b \<and> (\<forall>x\<in>set rest. rank x \<le> rank b))
        \<or> (\<exists>pre post. rest = pre @ r # post \<and> rank b < rank r
              \<and> (\<forall>x\<in>set pre. rank x < rank r) \<and> (\<forall>x\<in>set post. rank x \<le> rank r))"
    by blast
  from alt show ?thesis
  proof
    assume "r = b \<and> (\<forall>x\<in>set rest. rank x \<le> rank b)"
    with cs have "cs = [] @ r # rest \<and> (\<forall>x\<in>set []. rank x < rank r)
        \<and> (\<forall>x\<in>set rest. rank x \<le> rank r)"
      by simp
    with r step show ?thesis by metis
  next
    assume "\<exists>pre post. rest = pre @ r # post \<and> rank b < rank r
              \<and> (\<forall>x\<in>set pre. rank x < rank r) \<and> (\<forall>x\<in>set post. rank x \<le> rank r)"
    then obtain pre post where "rest = pre @ r # post" "rank b < rank r"
      "\<forall>x\<in>set pre. rank x < rank r" "\<forall>x\<in>set post. rank x \<le> rank r"
      by blast
    with cs have "cs = (b # pre) @ r # post \<and> (\<forall>x\<in>set (b # pre). rank x < rank r)
        \<and> (\<forall>x\<in>set post. rank x \<le> rank r)"
      by simp
    with r step show ?thesis by metis
  qed
qed

lemma selectKeyword_None_iff: "selectKeyword store tokens = None \<longleftrightarrow> candidates store tokens = []"
proof
  assume "selectKeyword store tokens = None"
  then show "candidates store tokens = []"
    using foldl_keepBest_None [of "candidates store tokens"]
    by (auto simp: selectKeyword_def)
next
  assume "candidates store tokens = []"
  then show "selectKeyword store tokens = None"
    by (simp add: selectKeyword_def)
qed

lemma set_candidates:
  "set (candidates store tokens) =
     {r. \<exists>w\<in>set tokens. index store (canonical (groups store) w) = Some r}"
  by (force simp: candidates_def List.map_filter_def image_iff)

lemma selected_rank_unique:
  assumes "cs = pre @ r # post" "\<forall>c\<in>set pre. rank c < rank r" "\<forall>c\<in>set post. rank c \<le> rank r"
    and "cs' = pre' @ r' # post'" "\<forall>c\<in>set pre'. rank c < rank r'" "\<forall>c\<in>set post'. rank c \<le> rank r'"
    and "set cs' = set cs"
  shows "rank r' = rank r"
proof -
  from assms(1) have "r \<in> set cs" by simp
  with assms(7) have "r \<in> set cs'" by simp
  with assms(4,5,6) have a: "rank r \<le> rank r'" by auto
  from assms(4) have "r' \<in> set cs'" by simp
  with assms(7) have "r' \<in> set cs" by simp
  with assms(1,2,3) have b: "rank r' \<le> rank r" by auto
  from a b show ?thesis by simp
qed

text \<open>
  Claim C4.  When a token of the input matches a registered keyword, the Keyword
  Selector selects a rule \<open>r\<close> among the candidates such that every candidate of
  an earlier token has a lower rank than \<open>r\<close> and every candidate of a later token
  has at most the rank of \<open>r\<close>: \<open>r\<close> has the highest rank, and among the
  candidates of that rank it is the one that occurs first in the input.  The rank
  selected does not depend on the order of the tokens: every input with the same
  tokens yields a candidate of the same rank.
\<close>

theorem selectKeyword_highest_rank_earliest:
  assumes "candidates store tokens \<noteq> []"
  shows "\<exists>r pre post.
      selectKeyword store tokens = Some r
    \<and> candidates store tokens = pre @ r # post
    \<and> (\<forall>c\<in>set pre. rank c < rank r)
    \<and> (\<forall>c\<in>set post. rank c \<le> rank r)
    \<and> (\<forall>tokens'. set tokens' = set tokens \<longrightarrow>
          (\<exists>r'. selectKeyword store tokens' = Some r' \<and> rank r' = rank r
              \<and> r' \<in> set (candidates store tokens)))"
proof -
  from foldl_keepBest_None [OF assms] obtain r pre post where
    sel: "selectKeyword store tokens = Some r"
    and split: "candidates store tokens = pre @ r # post"
    and lo: "\<forall>c\<in>set pre. rank c < rank r"
    and hi: "\<forall>c\<in>set post. rank c \<le> rank r"
    by (auto simp: selectKeyword_def)
  have "\<exists>r'. selectKeyword store tokens' = Some r' \<and> rank r' = rank r
          \<and> r' \<in> set (candidates store tokens)"
    if same: "set tokens' = set tokens" for tokens'
  proof -
    from same have cs: "set (candidates store tokens') = set (candidates store tokens)"
      by (simp add: set_candidates)
    with assms have "candidates store tokens' \<noteq> []"
      by (metis set_empty)
    from foldl_keepBest_None [OF this] obtain r' pre' post' where
      sel': "selectKeyword store tokens' = Some r'"
      and split': "candidates store tokens' = pre' @ r' # post'"
      and lo': "\<forall>c\<in>set pre'. rank c < rank r'"
      and hi': "\<forall>c\<in>set post'. rank c \<le> rank r'"
      by (auto simp: selectKeyword_def)
    from split' have "r' \<in> set (candidates store tokens')" by simp
    with cs have "r' \<in> set (candidates store tokens)" by simp
    with selected_rank_unique [OF split lo hi split' lo' hi' cs] sel'
    show ?thesis by simp
  qed
  with sel split lo hi show ?thesis by blast
qed

text \<open>
  The theorem at a store of the keywords \<open>dream\<close> (rank 3), \<open>mother\<close> (rank 3, with
  the synonyms \<open>mom\<close> and \<open>mum\<close>) and \<open>sad\<close> (rank 5): the higher rank wins over
  an earlier keyword, and of two keywords of equal rank the earlier one wins.
\<close>

theorem selectKeyword_witness:
  "selectKeyword
     \<lparr>index = map_of
        [(''dream'', \<lparr>keyword = ''dream'', rank = 3, decompositions = []\<rparr>),
         (''mother'', \<lparr>keyword = ''mother'', rank = 3, decompositions = []\<rparr>),
         (''sad'', \<lparr>keyword = ''sad'', rank = 5, decompositions = []\<rparr>)],
      groups = [\<lparr>canonicalKeyword = ''mother'', members = [''mom'', ''mum'']\<rparr>],
      fallbackList = []\<rparr>
     [''my'', ''mom'', ''had'', ''a'', ''sad'', ''dream''] =
       Some \<lparr>keyword = ''sad'', rank = 5, decompositions = []\<rparr>
   \<and> selectKeyword
     \<lparr>index = map_of
        [(''dream'', \<lparr>keyword = ''dream'', rank = 3, decompositions = []\<rparr>),
         (''mother'', \<lparr>keyword = ''mother'', rank = 3, decompositions = []\<rparr>),
         (''sad'', \<lparr>keyword = ''sad'', rank = 5, decompositions = []\<rparr>)],
      groups = [\<lparr>canonicalKeyword = ''mother'', members = [''mom'', ''mum'']\<rparr>],
      fallbackList = []\<rparr>
     [''my'', ''mom'', ''had'', ''a'', ''dream''] =
       Some \<lparr>keyword = ''mother'', rank = 3, decompositions = []\<rparr>
   \<and> candidates
     \<lparr>index = map_of
        [(''dream'', \<lparr>keyword = ''dream'', rank = 3, decompositions = []\<rparr>),
         (''mother'', \<lparr>keyword = ''mother'', rank = 3, decompositions = []\<rparr>),
         (''sad'', \<lparr>keyword = ''sad'', rank = 5, decompositions = []\<rparr>)],
      groups = [\<lparr>canonicalKeyword = ''mother'', members = [''mom'', ''mum'']\<rparr>],
      fallbackList = []\<rparr>
     [''my'', ''mom'', ''had'', ''a'', ''sad'', ''dream''] =
       [\<lparr>keyword = ''mother'', rank = 3, decompositions = []\<rparr>,
        \<lparr>keyword = ''sad'', rank = 5, decompositions = []\<rparr>,
        \<lparr>keyword = ''dream'', rank = 3, decompositions = []\<rparr>]"
proof -
  let ?store = "\<lparr>index = map_of
        [(''dream'', \<lparr>keyword = ''dream'', rank = 3, decompositions = []\<rparr>),
         (''mother'', \<lparr>keyword = ''mother'', rank = 3, decompositions = []\<rparr>),
         (''sad'', \<lparr>keyword = ''sad'', rank = 5, decompositions = []\<rparr>)],
      groups = [\<lparr>canonicalKeyword = ''mother'', members = [''mom'', ''mum'']\<rparr>],
      fallbackList = []\<rparr>"
  have c1: "candidates ?store [''my'', ''mom'', ''had'', ''a'', ''sad'', ''dream''] =
       [\<lparr>keyword = ''mother'', rank = 3, decompositions = []\<rparr>,
        \<lparr>keyword = ''sad'', rank = 5, decompositions = []\<rparr>,
        \<lparr>keyword = ''dream'', rank = 3, decompositions = []\<rparr>]"
    by (simp add: candidates_def canonical_def List.map_filter_def)
  have c2: "candidates ?store [''my'', ''mom'', ''had'', ''a'', ''dream''] =
       [\<lparr>keyword = ''mother'', rank = 3, decompositions = []\<rparr>,
        \<lparr>keyword = ''dream'', rank = 3, decompositions = []\<rparr>]"
    by (simp add: candidates_def canonical_def List.map_filter_def)
  from selectKeyword_highest_rank_earliest [of ?store "[''my'', ''mom'', ''had'', ''a'', ''sad'', ''dream'']"]
  obtain r pre post where
    s1: "selectKeyword ?store [''my'', ''mom'', ''had'', ''a'', ''sad'', ''dream''] = Some r"
    and "candidates ?store [''my'', ''mom'', ''had'', ''a'', ''sad'', ''dream''] = pre @ r # post"
    and "\<forall>c\<in>set pre. rank c < rank r" and "\<forall>c\<in>set post. rank c \<le> rank r"
    unfolding c1 by auto
  then have "r = \<lparr>keyword = ''sad'', rank = 5, decompositions = []\<rparr>"
    unfolding c1 by (auto simp: Cons_eq_append_conv)
  with s1 have 1: "selectKeyword ?store [''my'', ''mom'', ''had'', ''a'', ''sad'', ''dream''] =
       Some \<lparr>keyword = ''sad'', rank = 5, decompositions = []\<rparr>"
    by simp
  from selectKeyword_highest_rank_earliest [of ?store "[''my'', ''mom'', ''had'', ''a'', ''dream'']"]
  obtain r pre post where
    s2: "selectKeyword ?store [''my'', ''mom'', ''had'', ''a'', ''dream''] = Some r"
    and "candidates ?store [''my'', ''mom'', ''had'', ''a'', ''dream''] = pre @ r # post"
    and "\<forall>c\<in>set pre. rank c < rank r" and "\<forall>c\<in>set post. rank c \<le> rank r"
    unfolding c2 by auto
  then have "r = \<lparr>keyword = ''mother'', rank = 3, decompositions = []\<rparr>"
    unfolding c2 by (auto simp: Cons_eq_append_conv)
  with s2 have 2: "selectKeyword ?store [''my'', ''mom'', ''had'', ''a'', ''dream''] =
       Some \<lparr>keyword = ''mother'', rank = 3, decompositions = []\<rparr>"
    by simp
  from 1 2 c1 show ?thesis by simp
qed

subsection \<open>Reassembly Generator\<close>

lemma substitute_ok:
  "templateOk (length captures) t \<Longrightarrow> \<exists>filled. substitute key t captures = Inr filled"
  by (induction key t captures rule: substitute.induct) auto

lemma reassemble_ok:
  assumes "templates \<noteq> []" and "list_all (templateOk (length captures)) templates"
  shows "\<exists>filled.
      substitute key (templates ! (usageCounters session key mod length templates)) captures
        = Inr filled
    \<and> reassemble templates key captures session =
        Inr (filled,
             session\<lparr>usageCounters :=
               (usageCounters session)(key := usageCounters session key + 1)\<rparr>)"
proof -
  let ?i = "usageCounters session key mod length templates"
  from assms(1) have "?i < length templates" by simp
  with assms(2) have "templateOk (length captures) (templates ! ?i)"
    by (simp add: list_all_length)
  from substitute_ok [OF this] obtain filled where
    "substitute key (templates ! ?i) captures = Inr filled" by blast
  with assms(1) show ?thesis
    by (simp add: reassemble_def templateIndex_def)
qed

lemma invocations_rotate:
  assumes "templates \<noteq> []"
    and "list_all (\<lambda>captures. list_all (templateOk (length captures)) templates) captureLists"
  shows "\<exists>used.
      invocations templates key captureLists session =
        Inr (used,
             session\<lparr>usageCounters :=
               (usageCounters session)(key := usageCounters session key + length captureLists)\<rparr>)
    \<and> map fst used =
        map (\<lambda>k. (usageCounters session key + k) mod length templates) [0..<length captureLists]
    \<and> map (\<lambda>u. Inr (snd u)) used =
        map (\<lambda>k. substitute key
                   (templates ! ((usageCounters session key + k) mod length templates))
                   (captureLists ! k))
          [0..<length captureLists]"
  using assms(2)
proof (induction captureLists arbitrary: session)
  case Nil
  then show ?case by simp
next
  case (Cons captures rest)
  let ?c = "usageCounters session key"
  let ?s1 = "session\<lparr>usageCounters := (usageCounters session)(key := ?c + 1)\<rparr>"
  from Cons.prems have ok: "list_all (templateOk (length captures)) templates"
    and okrest: "list_all (\<lambda>captures. list_all (templateOk (length captures)) templates) rest"
    by simp_all
  from reassemble_ok [OF assms(1) ok, of key session] obtain filled where
    sub: "substitute key (templates ! (?c mod length templates)) captures = Inr filled"
    and re: "reassemble templates key captures session = Inr (filled, ?s1)"
    by blast
  have c1: "usageCounters ?s1 key = ?c + 1" by simp
  from Cons.IH [OF okrest, of ?s1] obtain used where
    inv: "invocations templates key rest ?s1 =
        Inr (used, ?s1\<lparr>usageCounters :=
               (usageCounters ?s1)(key := usageCounters ?s1 key + length rest)\<rparr>)"
    and idx: "map fst used =
        map (\<lambda>k. (usageCounters ?s1 key + k) mod length templates) [0..<length rest]"
    and outs: "map (\<lambda>u. Inr (snd u)) used =
        map (\<lambda>k. substitute key
                   (templates ! ((usageCounters ?s1 key + k) mod length templates)) (rest ! k))
          [0..<length rest]"
    by blast
  let ?used = "(?c mod length templates, filled) # used"
  have fin: "?s1\<lparr>usageCounters := (usageCounters ?s1)(key := usageCounters ?s1 key + length rest)\<rparr>
      = session\<lparr>usageCounters := (usageCounters session)(key := ?c + length (captures # rest))\<rparr>"
    by simp
  have 1: "invocations templates key (captures # rest) session =
      Inr (?used, session\<lparr>usageCounters :=
             (usageCounters session)(key := ?c + length (captures # rest))\<rparr>)"
    using re inv fin by (simp add: templateIndex_def)
  have shift: "[0..<length (captures # rest)] = 0 # map Suc [0..<length rest]"
    by (simp add: upt_conv_Cons map_Suc_upt del: upt_Suc)
  have 2: "map fst ?used =
      map (\<lambda>k. (?c + k) mod length templates) [0..<length (captures # rest)]"
    using idx unfolding shift c1 by (simp add: comp_def)
  have 3: "map (\<lambda>u. Inr (snd u)) ?used =
      map (\<lambda>k. substitute key (templates ! ((?c + k) mod length templates))
                 ((captures # rest) ! k))
        [0..<length (captures # rest)]"
    using outs sub unfolding shift c1 by (simp add: comp_def)
  from 1 2 3 show ?case by blast
qed

text \<open>
  Claim C5.  Take a decomposition pattern that the load accepts (\<open>M > 0\<close> templates,
  every placeholder below the wildcard count) and \<open>N\<close> invocations of its
  (keyword, pattern) pair, each with one capture per wildcard, in a session in
  which the counter of the pair is 0, as it is in a fresh session.  The invocations
  use the template indices \<open>0 mod M, 1 mod M, \<dots>, (N - 1) mod M\<close> in this order:
  the invocation number \<open>k + 1\<close> returns the template of index \<open>k mod M\<close> filled
  with its captures.  The counter of the pair in the session is \<open>N\<close> afterwards,
  and nothing else of the session has changed.
\<close>

theorem reassembly_rotation:
  assumes "decompositionOk d"
    and "list_all (\<lambda>captures. length captures = wildcardCount (pattern d)) captureLists"
    and "usageCounters session key = 0"
  shows "\<exists>used.
      invocations (reassemblies d) key captureLists session =
        Inr (used,
             session\<lparr>usageCounters := (usageCounters session)(key := length captureLists)\<rparr>)
    \<and> map fst used = map (\<lambda>k. k mod length (reassemblies d)) [0..<length captureLists]
    \<and> map (\<lambda>u. Inr (snd u)) used =
        map (\<lambda>k. substitute key (reassemblies d ! (k mod length (reassemblies d)))
                   (captureLists ! k))
          [0..<length captureLists]"
proof -
  from assms(1) have ne: "reassemblies d \<noteq> []"
    and ok: "list_all (templateOk (wildcardCount (pattern d))) (reassemblies d)"
    by (simp_all add: decompositionOk_def)
  from assms(2) ok
  have "list_all (\<lambda>captures. list_all (templateOk (length captures)) (reassemblies d)) captureLists"
    by (induction captureLists) simp_all
  from invocations_rotate [OF ne this, of key session] assms(3) show ?thesis
    by simp
qed

text \<open>
  The theorem at \<open>N = 5\<close> invocations of a pair with \<open>M = 3\<close> templates in a fresh
  session: the templates used are 0, 1, 2, 0, 1.
\<close>

theorem reassembly_rotation_witness:
  "\<exists>used session'.
      invocations
        (reassemblies
          \<lparr>pattern = [Wildcard, Literal ''dream'', Wildcard],
           reassemblies =
             [[Span ''Tell me more about '', Placeholder 1],
              [Span ''Why '', Placeholder 1, Span ''?''],
              [Span ''Go on.'']],
           memoryFlag = False\<rparr>)
        (''dream'', 0)
        [[''i'', ''a''], [''i'', ''b''], [''i'', ''c''], [''i'', ''d''], [''i'', ''e'']]
        createSession = Inr (used, session')
    \<and> map fst used = [0, 1, 2, 0, 1]
    \<and> map snd used =
        [''Tell me more about a'', ''Why b?'', ''Go on.'', ''Tell me more about d'', ''Why e?'']
    \<and> usageCounters session' (''dream'', 0) = 5"
proof -
  let ?d = "\<lparr>pattern = [Wildcard, Literal ''dream'', Wildcard],
           reassemblies =
             [[Span ''Tell me more about '', Placeholder 1],
              [Span ''Why '', Placeholder 1, Span ''?''],
              [Span ''Go on.'']],
           memoryFlag = False\<rparr>"
  let ?C = "[[''i'', ''a''], [''i'', ''b''], [''i'', ''c''], [''i'', ''d''], [''i'', ''e'']]"
  have up: "[0..<5] = [0, 1, 2, 3, 4::nat]"
    by (simp add: upt_rec)
  have h1: "decompositionOk ?d"
    by (simp add: decompositionOk_def wildcardCount_def)
  have h2: "list_all (\<lambda>captures. length captures = wildcardCount (pattern ?d)) ?C"
    by (simp add: wildcardCount_def)
  have h3: "usageCounters createSession (''dream'', 0) = 0"
    by (simp add: createSession_def)
  from reassembly_rotation [OF h1 h2 h3] obtain used where
    inv: "invocations (reassemblies ?d) (''dream'', 0) ?C createSession =
        Inr (used, createSession\<lparr>usageCounters :=
               (usageCounters createSession)((''dream'', 0) := length ?C)\<rparr>)"
    and idx: "map fst used = map (\<lambda>k. k mod length (reassemblies ?d)) [0..<length ?C]"
    and outs: "map (\<lambda>u. Inr (snd u)) used =
        map (\<lambda>k. substitute (''dream'', 0)
                   (reassemblies ?d ! (k mod length (reassemblies ?d))) (?C ! k))
          [0..<length ?C]"
    by blast
  from idx have i: "map fst used = [0, 1, 2, 0, 1]"
    by (simp add: up)
  from outs have "map (\<lambda>u. (Inr (snd u) :: engineError + string)) used =
      map Inr [''Tell me more about a'', ''Why b?'', ''Go on.'', ''Tell me more about d'', ''Why e?'']"
    by (simp add: up)
  then have "map (Inr :: string \<Rightarrow> engineError + string) (map snd used) =
      map Inr [''Tell me more about a'', ''Why b?'', ''Go on.'', ''Tell me more about d'', ''Why e?'']"
    by (simp add: comp_def)
  then have o: "map snd used =
      [''Tell me more about a'', ''Why b?'', ''Go on.'', ''Tell me more about d'', ''Why e?'']"
    by (simp only: inj_map_eq_map [OF inj_Inr])
  from inv i o show ?thesis by simp
qed

end
